theory Spec2Isabelle
  imports Complex_Main "HOL-Library.Word" "HOL-Library.Char_ord" "HOL-Library.List_Lexorder"
begin

section \<open>Errors and sync outcomes\<close>

text \<open>
  Go errors are opaque values. The controller only ever asks one question of an error
  (\<open>apierrors.IsNotFound\<close>) and only ever creates one itself (\<open>errRetry\<close>), so the
  model keeps one constructor per origin.
\<close>

datatype error =
    NotFound
  | FetchError string
  | DecodeError string
  | InvalidDuration string
  | BuildValidationError string
  | errRetry
  | NilPointerDereference

definition IsNotFound :: "error \<Rightarrow> bool" where
  "IsNotFound err = (case err of NotFound \<Rightarrow> True | _ \<Rightarrow> False)"

text \<open>
  Modelled from the spec: the declaration of \<open>SyncState\<close> and of its four constants is
  not part of the two source files; the spec names the outcomes Success, ErrorRetry,
  ErrorNoRetry and ReprocessAll. The type is an integer type in Go, so a Handler can
  return any integer; the four names are four distinct integers.
\<close>

type_synonym SyncState = int

definition SyncStateSuccess :: SyncState where "SyncStateSuccess = 0"
definition SyncStateError :: SyncState where "SyncStateError = 1"
definition SyncStateErrorNoRetry :: SyncState where "SyncStateErrorNoRetry = 2"
definition SyncStateReprocessAll :: SyncState where "SyncStateReprocessAll = 3"

section \<open>Formatting names\<close>

text \<open>
  \<open>fmt.Sprintf("...%d", index)\<close>: the prefix followed by the decimal digits of the
  integer, with a minus sign when it is negative. The counters are Go \<open>int\<close>s that
  start at 1 and grow by one per emitted object, so they stay far below the 64-bit
  limit and are unbounded integers here.
\<close>

fun digits10 :: "nat \<Rightarrow> string" where
  "digits10 n =
     (if n < 10 then [''0123456789'' ! n]
      else digits10 (n div 10) @ [''0123456789'' ! (n mod 10)])"

definition Sprintf_d :: "string \<Rightarrow> int \<Rightarrow> string" where
  "Sprintf_d prefix i =
     prefix @ (if i < 0 then CHR ''-'' # digits10 (nat (- i)) else digits10 (nat i))"

section \<open>The legacy configuration and the resources it is translated to\<close>

text \<open>
  Modelled from the spec: the declarations of \<open>configFile\<close>, \<open>addressPool\<close>,
  \<open>bgpAdvertisement\<close> and \<open>Proto\<close>, of the \<open>v1beta1\<close> resource types and of
  \<open>resourcesNameSpace\<close> are not part of the two source files. The records below have
  the fields the translation functions read and write. The two aggregation lengths
  have one type and the local preference another; they are type parameters with a zero,
  the value a Go field has when nothing is assigned to it. The protocol tag is a string
  with the two values the spec names. \<open>resourcesNameSpace\<close> is a parameter of every
  function that uses it. \<open>BGPCommunities\<close> is a Go map: it is the list of its entries
  in the order one \<open>range\<close> over it yields them, which Go leaves unspecified; its keys
  are distinct.
\<close>

type_synonym Proto = string

definition BGP :: Proto where "BGP = ''bgp''"
definition Layer2 :: Proto where "Layer2 = ''layer2''"

record ('a, 'l) bgpAdvertisement =
  AggregationLength :: 'a
  AggregationLengthV6 :: 'a
  LocalPref :: 'l
  Communities :: "string list"

record ('a, 'l) addressPool =
  Protocol :: Proto
  Name :: string
  Addresses :: "string list"
  AvoidBuggyIPs :: "bool option"
  AutoAssign :: "bool option"
  BGPAdvertisements :: "('a, 'l) bgpAdvertisement list"

record ('a, 'l) configFile =
  Pools :: "('a, 'l) addressPool list"
  BGPCommunities :: "(string \<times> string) list"

record ObjectMeta =
  Name :: string
  Namespace :: string

record CommunityAlias =
  Name :: string
  Value :: string

record CommunitySpec =
  Communities :: "CommunityAlias list"

record Community =
  ObjectMeta :: ObjectMeta
  Spec :: CommunitySpec

record ('a, 'l) BGPAdvertisementSpec =
  AggregationLength :: 'a
  AggregationLengthV6 :: 'a
  LocalPref :: 'l
  Communities :: "string list"
  IPAddressPools :: "string list"

record ('a, 'l) BGPAdvertisement =
  ObjectMeta :: ObjectMeta
  Spec :: "('a, 'l) BGPAdvertisementSpec"

record L2AdvertisementSpec =
  IPAddressPools :: "string list"

record L2Advertisement =
  ObjectMeta :: ObjectMeta
  Spec :: L2AdvertisementSpec

section \<open>Communities\<close>

text \<open>
  \<open>communitiesFor\<close>: nil for an empty map; otherwise the keys are collected in
  iteration order, sorted with \<open>sort.Strings\<close> (bytewise lexicographic order, the
  order of \<open>string\<close> here), and each is looked up in the map again. Indexing a Go map
  with a missing key gives the zero value, the empty string.
\<close>

definition map_index :: "(string \<times> string) list \<Rightarrow> string \<Rightarrow> string" where
  "map_index m k = (case map_of m k of None \<Rightarrow> [] | Some v \<Rightarrow> v)"

definition communitiesFor :: "string \<Rightarrow> ('a, 'l) configFile \<Rightarrow> Community list" where
  "communitiesFor resourcesNameSpace cf =
     (if length (BGPCommunities cf) = 0 then []
      else
        let sortedCommunities = sort (map fst (BGPCommunities cf));
            communitiesAliases =
              map (\<lambda>v. \<lparr>CommunityAlias.Name = v,
                         Value = map_index (BGPCommunities cf) v\<rparr>) sortedCommunities;
            res = \<lparr>Community.ObjectMeta =
                      \<lparr>ObjectMeta.Name = ''communities'', Namespace = resourcesNameSpace\<rparr>,
                   Community.Spec = \<lparr>CommunitySpec.Communities = communitiesAliases\<rparr>\<rparr>
        in [res])"

section \<open>BGP advertisements\<close>

definition emptyBGPAdv ::
  "string \<Rightarrow> string \<Rightarrow> int \<Rightarrow> ('a::zero, 'l::zero) BGPAdvertisement" where
  "emptyBGPAdv resourcesNameSpace addressPoolName index =
     \<lparr>BGPAdvertisement.ObjectMeta =
        \<lparr>ObjectMeta.Name = Sprintf_d ''bgpadvertisement'' index,
         Namespace = resourcesNameSpace\<rparr>,
      BGPAdvertisement.Spec =
        \<lparr>BGPAdvertisementSpec.AggregationLength = 0,
         BGPAdvertisementSpec.AggregationLengthV6 = 0,
         BGPAdvertisementSpec.LocalPref = 0,
         BGPAdvertisementSpec.Communities = [],
         BGPAdvertisementSpec.IPAddressPools = [addressPoolName]\<rparr>\<rparr>"

text \<open>
  The inner loop of \<open>bgpAdvertisementsFor\<close> over the advertisement specs of one pool;
  \<open>res\<close> and \<open>index\<close> are the two variables both loops update.
\<close>

fun bgpAdvs_of_pool ::
  "string \<Rightarrow> string \<Rightarrow> ('a, 'l) bgpAdvertisement list \<Rightarrow>
   ('a, 'l) BGPAdvertisement list \<times> int \<Rightarrow> ('a, 'l) BGPAdvertisement list \<times> int" where
  "bgpAdvs_of_pool resourcesNameSpace apName [] (res, index) = (res, index)"
| "bgpAdvs_of_pool resourcesNameSpace apName (bgpAdv # rest) (res, index) =
     (let b = \<lparr>BGPAdvertisement.ObjectMeta =
                 \<lparr>ObjectMeta.Name = Sprintf_d ''bgpadvertisement'' index,
                  Namespace = resourcesNameSpace\<rparr>,
               BGPAdvertisement.Spec =
                 \<lparr>BGPAdvertisementSpec.AggregationLength =
                    bgpAdvertisement.AggregationLength bgpAdv,
                  BGPAdvertisementSpec.AggregationLengthV6 =
                    bgpAdvertisement.AggregationLengthV6 bgpAdv,
                  BGPAdvertisementSpec.LocalPref = bgpAdvertisement.LocalPref bgpAdv,
                  BGPAdvertisementSpec.Communities = bgpAdvertisement.Communities bgpAdv,
                  BGPAdvertisementSpec.IPAddressPools = [apName]\<rparr>\<rparr>
      in bgpAdvs_of_pool resourcesNameSpace apName rest (res @ [b], index + 1))"

text \<open>The outer loop over the pools.\<close>

fun bgpAdvs_of_pools ::
  "string \<Rightarrow> ('a::zero, 'l::zero) addressPool list \<Rightarrow>
   ('a, 'l) BGPAdvertisement list \<times> int \<Rightarrow> ('a, 'l) BGPAdvertisement list \<times> int" where
  "bgpAdvs_of_pools resourcesNameSpace [] (res, index) = (res, index)"
| "bgpAdvs_of_pools resourcesNameSpace (ap # rest) (res, index) =
     (let (res, index) =
            bgpAdvs_of_pool resourcesNameSpace (addressPool.Name ap) (BGPAdvertisements ap)
              (res, index);
          (res, index) =
            (if length (BGPAdvertisements ap) = 0 \<and> Protocol ap = BGP
             then (res @ [emptyBGPAdv resourcesNameSpace (addressPool.Name ap) index], index + 1)
             else (res, index))
      in bgpAdvs_of_pools resourcesNameSpace rest (res, index))"

definition bgpAdvertisementsFor ::
  "string \<Rightarrow> ('a::zero, 'l::zero) configFile \<Rightarrow> ('a, 'l) BGPAdvertisement list" where
  "bgpAdvertisementsFor resourcesNameSpace c =
     fst (bgpAdvs_of_pools resourcesNameSpace (Pools c) ([], 1))"

section \<open>L2 advertisements\<close>

fun l2Advs_of_pools ::
  "string \<Rightarrow> ('a, 'l) addressPool list \<Rightarrow>
   L2Advertisement list \<times> int \<Rightarrow> L2Advertisement list \<times> int" where
  "l2Advs_of_pools resourcesNameSpace [] (res, index) = (res, index)"
| "l2Advs_of_pools resourcesNameSpace (ap # rest) (res, index) =
     (if Protocol ap = Layer2 then
        let l2Adv = \<lparr>L2Advertisement.ObjectMeta =
                       \<lparr>ObjectMeta.Name = Sprintf_d ''l2advertisement'' index,
                        Namespace = resourcesNameSpace\<rparr>,
                     L2Advertisement.Spec =
                       \<lparr>L2AdvertisementSpec.IPAddressPools = [addressPool.Name ap]\<rparr>\<rparr>
        in l2Advs_of_pools resourcesNameSpace rest (res @ [l2Adv], index + 1)
      else l2Advs_of_pools resourcesNameSpace rest (res, index))"

definition l2AdvertisementsFor ::
  "string \<Rightarrow> ('a, 'l) configFile \<Rightarrow> L2Advertisement list" where
  "l2AdvertisementsFor resourcesNameSpace c =
     fst (l2Advs_of_pools resourcesNameSpace (Pools c) ([], 1))"

section \<open>Cluster resources\<close>

text \<open>
  \<open>config.ClusterResources\<close> as \<open>addResources\<close> and \<open>Reconcile\<close> use it. The element
  types of its slices are declared in other packages and are type parameters here.
  A Go map is a reference: the field holds \<open>None\<close> for a nil map and the address of
  the map object otherwise.
\<close>

type_synonym addr = nat

record ('pool, 'peer, 'bfd, 'bgpadv, 'l2adv, 'lap, 'comm, 'node, 'ns) ClusterResources =
  Pools :: "'pool list"
  Peers :: "'peer list"
  BFDProfiles :: "'bfd list"
  BGPAdvs :: "'bgpadv list"
  L2Advs :: "'l2adv list"
  LegacyAddressPools :: "'lap list"
  Communities :: "'comm list"
  PasswordSecrets :: "addr option"
  Nodes :: "'node list"
  Namespaces :: "'ns list"

definition emptyClusterResources ::
  "('pool, 'peer, 'bfd, 'bgpadv, 'l2adv, 'lap, 'comm, 'node, 'ns) ClusterResources" where
  "emptyClusterResources =
     \<lparr>Pools = [], Peers = [], BFDProfiles = [], BGPAdvs = [], L2Advs = [],
      LegacyAddressPools = [], Communities = [], PasswordSecrets = None,
      Nodes = [], Namespaces = []\<rparr>"

section \<open>The pool reconciler\<close>

text \<open>
  The mutable part of \<open>PoolReconciler\<close> is \<open>currentConfig\<close>. The package-level metrics
  (\<open>updates\<close>, \<open>updateErrors\<close>, \<open>configStale\<close>, \<open>configLoaded\<close>) and the calls made to
  \<open>Handler\<close> and \<open>ForceReload\<close> are effects of a cycle, so they are part of the state a
  cycle returns: the two counters count, the two gauges hold the last value set, and
  \<open>handlerCalls\<close> lists the arguments of every Handler invocation in order.
  Logging is not modelled.
\<close>

record ('cfg, 'pools) PoolReconciler =
  currentConfig :: "'cfg option"
  updates :: nat
  updateErrors :: nat
  configStale :: int
  configLoaded :: int
  handlerCalls :: "'pools list"
  forceReloads :: nat

text \<open>
  What one invocation of \<open>Reconcile\<close> meets outside the function: the answers of the
  resource store, and the functions of this repository that are not in the two source
  files (\<open>DecodeLegacyCM\<close>, \<open>ResourcesFor\<close>, \<open>AddLegacyResources\<close>, \<open>toConfig\<close> with the
  reconciler's \<open>ValidateConfig\<close>, the \<open>Pools\<close> field of a built config) and the
  \<open>Handler\<close>. \<open>r.List\<close> and \<open>r.Get\<close> fill the object they are given and return an
  error or nil; \<open>Get_legacyConfig\<close> is the pair of that error and of the config map
  as it stands after the call (the zero value when nothing was found).
\<close>

record ('pool, 'peer, 'bfd, 'bgpadv, 'l2adv, 'lap, 'comm, 'node, 'ns, 'cm, 'cf, 'cfg, 'pools) env =
  List_AddressPools :: "error + 'lap list"
  List_IPAddressPools :: "error + 'pool list"
  List_Communities :: "error + 'comm list"
  List_Namespaces :: "error + 'ns list"
  Get_legacyConfig :: "error option \<times> 'cm"
  DecodeLegacyCM :: "'cm \<Rightarrow> error + 'cf"
  ResourcesFor :: "'cf \<Rightarrow>
     error + ('pool, 'peer, 'bfd, 'bgpadv, 'l2adv, 'lap, 'comm, 'node, 'ns) ClusterResources"
  AddLegacyResources ::
    "('pool, 'peer, 'bfd, 'bgpadv, 'l2adv, 'lap, 'comm, 'node, 'ns) ClusterResources \<Rightarrow>
     ('pool, 'peer, 'bfd, 'bgpadv, 'l2adv, 'lap, 'comm, 'node, 'ns) ClusterResources \<Rightarrow>
     ('pool, 'peer, 'bfd, 'bgpadv, 'l2adv, 'lap, 'comm, 'node, 'ns) ClusterResources"
  toConfig ::
    "('pool, 'peer, 'bfd, 'bgpadv, 'l2adv, 'lap, 'comm, 'node, 'ns) ClusterResources \<Rightarrow>
     error + 'cfg"
  cfg_Pools :: "'cfg \<Rightarrow> 'pools"
  Handler :: "'pools \<Rightarrow> SyncState"

text \<open>
  The \<open>switch\<close> on the Handler's result, with the statements after it: \<open>SyncStateError\<close>
  and \<open>SyncStateErrorNoRetry\<close> return from inside the switch, \<open>SyncStateReprocessAll\<close>
  calls \<open>ForceReload\<close> and leaves the switch, every other value leaves it untouched.
\<close>

definition applyOutcome ::
  "SyncState \<Rightarrow> 'cfg \<Rightarrow> ('cfg, 'pools) PoolReconciler \<Rightarrow>
   ('cfg, 'pools) PoolReconciler \<times> error option" where
  "applyOutcome res cfg r =
     (let after = (\<lambda>r. (r\<lparr>currentConfig := Some cfg, configLoaded := 1, configStale := 0\<rparr>,
                         None))
      in
      if res = SyncStateError then
        (r\<lparr>updateErrors := updateErrors r + 1, configStale := 1\<rparr>, Some errRetry)
      else if res = SyncStateReprocessAll then
        after (r\<lparr>forceReloads := forceReloads r + 1\<rparr>)
      else if res = SyncStateErrorNoRetry then
        (r\<lparr>updateErrors := updateErrors r + 1, configStale := 1\<rparr>, None)
      else after r)"

text \<open>
  \<open>Reconcile\<close>, statement by statement. \<open>reflect.DeepEqual(r.currentConfig, cfg)\<close>
  compares a possibly nil pointer with the pointer \<open>toConfig\<close> returned: it holds when
  \<open>currentConfig\<close> is set and its value is structurally equal to the new one.
  The result is the reconciler after the cycle and the returned error (\<open>None\<close> for nil);
  the returned \<open>ctrl.Result\<close> is always the zero value.
\<close>

definition Reconcile ::
  "('pool, 'peer, 'bfd, 'bgpadv, 'l2adv, 'lap, 'comm, 'node, 'ns, 'cm, 'cf, 'cfg, 'pools) env \<Rightarrow>
   ('cfg, 'pools) PoolReconciler \<Rightarrow> ('cfg, 'pools) PoolReconciler \<times> error option" where
  "Reconcile e r0 =
     (let r = r0\<lparr>updates := updates r0 + 1\<rparr> in
      case List_AddressPools e of Inl err \<Rightarrow> (r, Some err) | Inr addressPools \<Rightarrow>
      case List_IPAddressPools e of Inl err \<Rightarrow> (r, Some err) | Inr ipAddressPools \<Rightarrow>
      case List_Communities e of Inl err \<Rightarrow> (r, Some err) | Inr communities \<Rightarrow>
      case List_Namespaces e of Inl err \<Rightarrow> (r, Some err) | Inr namespaces \<Rightarrow>
      case Get_legacyConfig e of (gerr, legacyConfig) \<Rightarrow>
      if gerr \<noteq> None \<and> \<not> IsNotFound (the gerr) then (r, gerr) else
      case DecodeLegacyCM e legacyConfig of Inl err \<Rightarrow> (r, Some err) | Inr legacyCF \<Rightarrow>
      case ResourcesFor e legacyCF of Inl err \<Rightarrow> (r, Some err) | Inr legacyResources \<Rightarrow>
      let resources = emptyClusterResources\<lparr>Pools := ipAddressPools,
                        LegacyAddressPools := addressPools,
                        Communities := communities,
                        Namespaces := namespaces\<rparr>;
          resources = AddLegacyResources e resources legacyResources
      in
      case toConfig e resources of
        Inl err \<Rightarrow> (r\<lparr>configStale := 1\<rparr>, None)
      | Inr cfg \<Rightarrow>
          if currentConfig r = Some cfg then (r, None)
          else
            let res = Handler e (cfg_Pools e cfg);
                r = r\<lparr>handlerCalls := handlerCalls r @ [cfg_Pools e cfg]\<rparr>
            in applyOutcome res cfg r)"

text \<open>
  The steps before the build (fetch, decode, translate, aggregate) all succeed and hand
  \<open>resources\<close> to the builder.
\<close>

definition aggregates_to ::
  "('pool, 'peer, 'bfd, 'bgpadv, 'l2adv, 'lap, 'comm, 'node, 'ns, 'cm, 'cf, 'cfg, 'pools) env \<Rightarrow>
   ('pool, 'peer, 'bfd, 'bgpadv, 'l2adv, 'lap, 'comm, 'node, 'ns) ClusterResources \<Rightarrow> bool" where
  "aggregates_to e resources =
     (case (List_AddressPools e, List_IPAddressPools e, List_Communities e, List_Namespaces e) of
        (Inr addressPools, Inr ipAddressPools, Inr communities, Inr namespaces) \<Rightarrow>
          (fst (Get_legacyConfig e) = None \<or> fst (Get_legacyConfig e) = Some NotFound) \<and>
          (case DecodeLegacyCM e (snd (Get_legacyConfig e)) of
             Inl err \<Rightarrow> False
           | Inr legacyCF \<Rightarrow>
               (case ResourcesFor e legacyCF of
                  Inl err \<Rightarrow> False
                | Inr legacyResources \<Rightarrow>
                    resources = AddLegacyResources e
                      (emptyClusterResources\<lparr>Pools := ipAddressPools,
                         LegacyAddressPools := addressPools,
                         Communities := communities,
                         Namespaces := namespaces\<rparr>) legacyResources))
      | _ \<Rightarrow> False)"

section \<open>A small cluster for concrete runs\<close>

text \<open>
  A store that holds the given pools and one namespace and no legacy config map, a
  translation that yields no legacy resources, a builder that rejects a cluster without
  pools and otherwise builds the list of pool names, and a Handler that answers
  \<open>outcome\<close> whatever it is given.
\<close>

definition example_env ::
  "string list \<Rightarrow> SyncState \<Rightarrow>
   (string, unit, unit, unit, unit, string, string, unit, string, unit, unit,
    string list, string list) env" where
  "example_env pools outcome =
     \<lparr>List_AddressPools = Inr [],
      List_IPAddressPools = Inr pools,
      List_Communities = Inr [],
      List_Namespaces = Inr [''default''],
      Get_legacyConfig = (Some NotFound, ()),
      DecodeLegacyCM = (\<lambda>cm. Inr ()),
      ResourcesFor = (\<lambda>cf. Inr emptyClusterResources),
      AddLegacyResources = (\<lambda>first second. first\<lparr>Pools := Pools first @ Pools second\<rparr>),
      toConfig = (\<lambda>resources. if Pools resources = []
                                then Inl (BuildValidationError ''no pools'')
                                else Inr (Pools resources)),
      cfg_Pools = (\<lambda>cfg. cfg),
      Handler = (\<lambda>pools. outcome)\<rparr>"

definition example_resources ::
  "string list \<Rightarrow> (string, unit, unit, unit, unit, string, string, unit, string) ClusterResources" where
  "example_resources pools =
     emptyClusterResources\<lparr>Pools := pools, Namespaces := [''default'']\<rparr>"

definition example_reconciler ::
  "string list option \<Rightarrow> (string list, string list) PoolReconciler" where
  "example_reconciler cur =
     \<lparr>currentConfig = cur, updates = 5, updateErrors = 0, configStale = 0,
      configLoaded = 1, handlerCalls = [], forceReloads = 0\<rparr>"

section \<open>Reconcile: the cycle up to the build\<close>

lemma Reconcile_after_aggregate:
  assumes "aggregates_to e resources"
  shows "Reconcile e r0 =
     (let r = r0\<lparr>updates := updates r0 + 1\<rparr> in
      case toConfig e resources of
        Inl err \<Rightarrow> (r\<lparr>configStale := 1\<rparr>, None)
      | Inr cfg \<Rightarrow>
          if currentConfig r = Some cfg then (r, None)
          else applyOutcome (Handler e (cfg_Pools e cfg)) cfg
                 (r\<lparr>handlerCalls := handlerCalls r @ [cfg_Pools e cfg]\<rparr>))"
  using assms
  by (cases "Get_legacyConfig e")
     (auto simp: aggregates_to_def Reconcile_def Let_def IsNotFound_def
           split: sum.splits prod.splits)

lemma example_env_aggregates:
  "aggregates_to (example_env pools outcome) (example_resources pools)"
  by (simp add: aggregates_to_def example_env_def example_resources_def
        emptyClusterResources_def)

lemma example_env_toConfig:
  "toConfig (example_env pools outcome) (example_resources pools) =
     (if pools = [] then Inl (BuildValidationError ''no pools'') else Inr pools)"
  by (simp add: example_env_def example_resources_def emptyClusterResources_def)

section \<open>Reconcile: a failing build\<close>

text \<open>
  C6. When the fetch, decode, translate and aggregate steps succeed and the config
  builder fails on the merged resources, the cycle sets the stale gauge to 1, leaves the
  loaded gauge, the error counter and the last applied config as they were, does not
  call the Handler or the force-reload callback, and returns no error. (The attempt
  counter has been incremented at the start of the cycle.)
\<close>

theorem Reconcile_build_failure:
  assumes "aggregates_to e resources" and "toConfig e resources = Inl err"
  shows "Reconcile e r = (r\<lparr>updates := updates r + 1, configStale := 1\<rparr>, None)
       \<and> configStale (fst (Reconcile e r)) = 1
       \<and> configLoaded (fst (Reconcile e r)) = configLoaded r
       \<and> currentConfig (fst (Reconcile e r)) = currentConfig r
       \<and> handlerCalls (fst (Reconcile e r)) = handlerCalls r
       \<and> snd (Reconcile e r) = None"
  using assms by (simp add: Reconcile_after_aggregate)

theorem Reconcile_build_failure_witness:
  "aggregates_to (example_env [] 0) (example_resources [])
   \<and> toConfig (example_env [] 0) (example_resources []) = Inl (BuildValidationError ''no pools'')
   \<and> Reconcile (example_env [] 0) (example_reconciler (Some [''a''])) =
       (\<lparr>currentConfig = Some [''a''], updates = 6, updateErrors = 0, configStale = 1,
         configLoaded = 1, handlerCalls = [], forceReloads = 0\<rparr>, None)"
  using Reconcile_build_failure [OF example_env_aggregates [of "[]" 0],
          of "BuildValidationError ''no pools''" "example_reconciler (Some [''a''])"]
  by (simp add: example_env_aggregates example_env_toConfig example_reconciler_def)

section \<open>Reconcile: an unchanged config\<close>

lemma Reconcile_updates: "updates (fst (Reconcile e r)) = updates r + 1"
  by (cases "Get_legacyConfig e")
     (simp add: Reconcile_def applyOutcome_def Let_def split: sum.splits)

text \<open>
  C2, as the code has it. When fetch and build succeed and the built config is deeply
  equal to the last applied one, the Handler and the force-reload callback are not
  called, the error counter and both gauges keep their values, the last applied config
  is unchanged and no error is returned; the only change is the attempt counter
  \<open>updates\<close>. That counter is incremented by one on entry by every invocation, whatever
  the store, the translation, the builder and the Handler answer (the last conjunct, for
  any environment \<open>e'\<close> and reconciler \<open>r'\<close>).
\<close>

theorem Reconcile_unchanged_config:
  assumes "aggregates_to e resources" and "toConfig e resources = Inr cfg"
    and "currentConfig r = Some cfg"
  shows "Reconcile e r = (r\<lparr>updates := updates r + 1\<rparr>, None)
       \<and> handlerCalls (fst (Reconcile e r)) = handlerCalls r
       \<and> forceReloads (fst (Reconcile e r)) = forceReloads r
       \<and> updateErrors (fst (Reconcile e r)) = updateErrors r
       \<and> configStale (fst (Reconcile e r)) = configStale r
       \<and> configLoaded (fst (Reconcile e r)) = configLoaded r
       \<and> currentConfig (fst (Reconcile e r)) = currentConfig r
       \<and> updates (fst (Reconcile e r)) = updates r + 1
       \<and> snd (Reconcile e r) = None
       \<and> updates (fst (Reconcile e' r')) = updates r' + 1"
  using assms by (simp add: Reconcile_after_aggregate Reconcile_updates)

theorem Reconcile_unchanged_config_witness:
  "aggregates_to (example_env [''a''] 0) (example_resources [''a''])
   \<and> toConfig (example_env [''a''] 0) (example_resources [''a'']) = Inr [''a'']
   \<and> currentConfig (example_reconciler (Some [''a''])) = Some [''a'']
   \<and> Reconcile (example_env [''a''] 0) (example_reconciler (Some [''a''])) =
       (\<lparr>currentConfig = Some [''a''], updates = 6, updateErrors = 0, configStale = 0,
         configLoaded = 1, handlerCalls = [], forceReloads = 0\<rparr>, None)
   \<and> updates (fst (Reconcile (example_env [] 0) (example_reconciler None))) = 6"
proof -
  let ?e = "example_env [''a''] 0"
  let ?r = "example_reconciler (Some [''a''])"
  have t: "toConfig ?e (example_resources [''a'']) = Inr [''a'']"
    by (simp add: example_env_toConfig)
  have c: "currentConfig ?r = Some [''a'']"
    by (simp add: example_reconciler_def)
  note thm0 = Reconcile_unchanged_config [OF example_env_aggregates t c,
      of "example_env [] 0" "example_reconciler None"]
  have th1: "Reconcile ?e ?r =
       (\<lparr>currentConfig = Some [''a''], updates = 6, updateErrors = 0, configStale = 0,
         configLoaded = 1, handlerCalls = [], forceReloads = 0\<rparr>, None)"
    using thm0 [THEN conjunct1] by (simp add: example_reconciler_def)
  have th2: "updates (fst (Reconcile (example_env [] 0) (example_reconciler None))) = 6"
    using thm0 [THEN conjunct2, THEN conjunct2, THEN conjunct2, THEN conjunct2, THEN conjunct2,
      THEN conjunct2, THEN conjunct2, THEN conjunct2, THEN conjunct2]
    by (simp add: example_reconciler_def)
  show ?thesis
    using th1 th2 example_env_aggregates [of "[''a'']" 0] t c by blast
qed

text \<open>
  The claim as stated (no metric changes at all) fails on that run: fetch and build
  succeed, the built config equals the last applied one, and the attempt counter goes
  from 5 to 6.
\<close>

theorem Reconcile_unchanged_config_counterexample:
  "aggregates_to (example_env [''a''] 0) (example_resources [''a''])
   \<and> toConfig (example_env [''a''] 0) (example_resources [''a'']) = Inr [''a'']
   \<and> currentConfig (example_reconciler (Some [''a''])) = Some [''a'']
   \<and> updates (example_reconciler (Some [''a''])) = 5
   \<and> updates (fst (Reconcile (example_env [''a''] 0) (example_reconciler (Some [''a''])))) = 6"
  by (simp add: Reconcile_after_aggregate [OF example_env_aggregates]
        example_env_aggregates example_env_toConfig example_reconciler_def)

section \<open>Reconcile: the Handler's outcome\<close>

lemma Reconcile_apply:
  assumes "aggregates_to e resources" and "toConfig e resources = Inr cfg"
    and "currentConfig r \<noteq> Some cfg"
  shows "Reconcile e r =
     applyOutcome (Handler e (cfg_Pools e cfg)) cfg
       (r\<lparr>updates := updates r + 1, handlerCalls := handlerCalls r @ [cfg_Pools e cfg]\<rparr>)"
  using assms by (simp add: Reconcile_after_aggregate)

lemma aggregates_to_Handler_update:
  "aggregates_to (e\<lparr>Handler := h\<rparr>) resources = aggregates_to e resources"
  by (simp add: aggregates_to_def split: sum.splits prod.splits)

text \<open>
  C3. When the Handler is called and answers \<open>SyncStateErrorNoRetry\<close>, the error
  counter is incremented, the stale gauge is set to 1, the last applied config is
  unchanged and no error is returned. A following cycle that meets the same store,
  translation and builder (whatever its Handler answers) compares the same built config
  with the same last applied config, finds them different and calls the Handler again.
\<close>

theorem Reconcile_error_no_retry:
  assumes "aggregates_to e resources" and "toConfig e resources = Inr cfg"
    and "currentConfig r \<noteq> Some cfg"
    and "Handler e (cfg_Pools e cfg) = SyncStateErrorNoRetry"
  shows "Reconcile e r =
           (r\<lparr>updates := updates r + 1,
              handlerCalls := handlerCalls r @ [cfg_Pools e cfg],
              updateErrors := updateErrors r + 1,
              configStale := 1\<rparr>, None)
       \<and> updateErrors (fst (Reconcile e r)) = updateErrors r + 1
       \<and> configStale (fst (Reconcile e r)) = 1
       \<and> currentConfig (fst (Reconcile e r)) = currentConfig r
       \<and> snd (Reconcile e r) = None
       \<and> handlerCalls (fst (Reconcile (e\<lparr>Handler := h\<rparr>) (fst (Reconcile e r)))) =
           handlerCalls r @ [cfg_Pools e cfg, cfg_Pools e cfg]"
proof -
  have first: "Reconcile e r =
           (r\<lparr>updates := updates r + 1,
              handlerCalls := handlerCalls r @ [cfg_Pools e cfg],
              updateErrors := updateErrors r + 1,
              configStale := 1\<rparr>, None)"
    using assms
    by (simp add: Reconcile_apply applyOutcome_def SyncStateError_def
          SyncStateErrorNoRetry_def SyncStateReprocessAll_def)
  let ?r1 = "fst (Reconcile e r)"
  let ?e1 = "e\<lparr>Handler := h\<rparr>"
  have cur: "currentConfig ?r1 \<noteq> Some cfg"
    using assms(3) by (simp add: first)
  have "aggregates_to ?e1 resources" and "toConfig ?e1 resources = Inr cfg"
    using assms(1,2) by (simp_all add: aggregates_to_Handler_update)
  from Reconcile_apply [OF this cur]
  have "handlerCalls (fst (Reconcile ?e1 ?r1)) = handlerCalls ?r1 @ [cfg_Pools e cfg]"
    by (simp add: applyOutcome_def Let_def)
  then have second: "handlerCalls (fst (Reconcile ?e1 ?r1)) =
      handlerCalls r @ [cfg_Pools e cfg, cfg_Pools e cfg]"
    by (simp add: first)
  show ?thesis
    using second by (simp add: first)
qed

theorem Reconcile_error_no_retry_witness:
  "aggregates_to (example_env [''a''] SyncStateErrorNoRetry) (example_resources [''a''])
   \<and> toConfig (example_env [''a''] SyncStateErrorNoRetry) (example_resources [''a'']) = Inr [''a'']
   \<and> currentConfig (example_reconciler None) \<noteq> Some [''a'']
   \<and> Handler (example_env [''a''] SyncStateErrorNoRetry)
        (cfg_Pools (example_env [''a''] SyncStateErrorNoRetry) [''a'']) = SyncStateErrorNoRetry
   \<and> Reconcile (example_env [''a''] SyncStateErrorNoRetry) (example_reconciler None) =
       (\<lparr>currentConfig = None, updates = 6, updateErrors = 1, configStale = 1,
         configLoaded = 1, handlerCalls = [[''a'']], forceReloads = 0\<rparr>, None)
   \<and> handlerCalls (fst (Reconcile (example_env [''a''] SyncStateErrorNoRetry)
        (fst (Reconcile (example_env [''a''] SyncStateErrorNoRetry) (example_reconciler None)))))
       = [[''a''], [''a'']]"
proof -
  let ?e = "example_env [''a''] SyncStateErrorNoRetry"
  have h: "Handler ?e (cfg_Pools ?e [''a'']) = SyncStateErrorNoRetry"
    by (simp add: example_env_def)
  have t: "toConfig ?e (example_resources [''a'']) = Inr [''a'']"
    by (simp add: example_env_toConfig)
  have c: "currentConfig (example_reconciler None) \<noteq> Some [''a'']"
    by (simp add: example_reconciler_def)
  have same: "?e\<lparr>Handler := Handler ?e\<rparr> = ?e"
    by simp
  have p: "cfg_Pools ?e [''a''] = [''a'']"
    by (simp add: example_env_def)
  have h': "Handler ?e [''a''] = SyncStateErrorNoRetry"
    using h by (simp add: p)
  note thm0 = Reconcile_error_no_retry [OF example_env_aggregates t c h, of "Handler ?e"]
  have th1: "Reconcile ?e (example_reconciler None) =
       (\<lparr>currentConfig = None, updates = 6, updateErrors = 1, configStale = 1,
         configLoaded = 1, handlerCalls = [[''a'']], forceReloads = 0\<rparr>, None)"
    using thm0 [THEN conjunct1] by (simp add: p example_reconciler_def)
  have hc: "handlerCalls (example_reconciler None :: (string list, string list) PoolReconciler) = []"
    by (simp add: example_reconciler_def)
  have th2: "handlerCalls (fst (Reconcile ?e (fst (Reconcile ?e (example_reconciler None)))))
       = [[''a''], [''a'']]"
    using thm0 [THEN conjunct2, THEN conjunct2, THEN conjunct2, THEN conjunct2, THEN conjunct2]
    by (simp add: same p hc)
  show ?thesis
    using th1 th2 example_env_aggregates [of "[''a'']" SyncStateErrorNoRetry] t c h
    by blast
qed

text \<open>
  C9. When the Handler is called and answers a value that is none of
  \<open>SyncStateError\<close>, \<open>SyncStateErrorNoRetry\<close> and \<open>SyncStateReprocessAll\<close> (the success
  value or any other integer), no case of the switch is taken: the new config becomes
  the last applied one, the loaded gauge is set to 1, the stale gauge to 0, the error
  counter is unchanged, the force-reload callback is not called and no error is returned.
\<close>

theorem Reconcile_unhandled_outcome:
  assumes "aggregates_to e resources" and "toConfig e resources = Inr cfg"
    and "currentConfig r \<noteq> Some cfg"
    and "Handler e (cfg_Pools e cfg) \<noteq> SyncStateError"
    and "Handler e (cfg_Pools e cfg) \<noteq> SyncStateErrorNoRetry"
    and "Handler e (cfg_Pools e cfg) \<noteq> SyncStateReprocessAll"
  shows "Reconcile e r =
           (r\<lparr>updates := updates r + 1,
              handlerCalls := handlerCalls r @ [cfg_Pools e cfg],
              currentConfig := Some cfg,
              configLoaded := 1,
              configStale := 0\<rparr>, None)
       \<and> currentConfig (fst (Reconcile e r)) = Some cfg
       \<and> configLoaded (fst (Reconcile e r)) = 1
       \<and> configStale (fst (Reconcile e r)) = 0
       \<and> updateErrors (fst (Reconcile e r)) = updateErrors r
       \<and> forceReloads (fst (Reconcile e r)) = forceReloads r
       \<and> snd (Reconcile e r) = None"
  using assms by (simp add: Reconcile_apply applyOutcome_def)

theorem Reconcile_unhandled_outcome_witness:
  "aggregates_to (example_env [''a''] 42) (example_resources [''a''])
   \<and> toConfig (example_env [''a''] 42) (example_resources [''a'']) = Inr [''a'']
   \<and> currentConfig (example_reconciler (Some [''b''])) \<noteq> Some [''a'']
   \<and> Handler (example_env [''a''] 42) (cfg_Pools (example_env [''a''] 42) [''a'']) = 42
   \<and> 42 \<noteq> SyncStateError \<and> 42 \<noteq> SyncStateErrorNoRetry \<and> 42 \<noteq> SyncStateReprocessAll
   \<and> Reconcile (example_env [''a''] 42) (example_reconciler (Some [''b''])) =
       (\<lparr>currentConfig = Some [''a''], updates = 6, updateErrors = 0, configStale = 0,
         configLoaded = 1, handlerCalls = [[''a'']], forceReloads = 0\<rparr>, None)"
proof -
  let ?e = "example_env [''a''] 42"
  have h: "Handler ?e (cfg_Pools ?e [''a'']) = 42"
    by (simp add: example_env_def)
  have t: "toConfig ?e (example_resources [''a'']) = Inr [''a'']"
    by (simp add: example_env_toConfig)
  have c: "currentConfig (example_reconciler (Some [''b''])) \<noteq> Some [''a'']"
    by (simp add: example_reconciler_def)
  have d: "(42::int) \<noteq> SyncStateError" "(42::int) \<noteq> SyncStateErrorNoRetry"
    "(42::int) \<noteq> SyncStateReprocessAll"
    by (simp_all add: SyncStateError_def SyncStateErrorNoRetry_def SyncStateReprocessAll_def)
  have p: "cfg_Pools ?e [''a''] = [''a'']"
    by (simp add: example_env_def)
  have h': "Handler ?e [''a''] = 42"
    using h by (simp add: p)
  have th: "Reconcile ?e (example_reconciler (Some [''b''])) =
       (\<lparr>currentConfig = Some [''a''], updates = 6, updateErrors = 0, configStale = 0,
         configLoaded = 1, handlerCalls = [[''a'']], forceReloads = 0\<rparr>, None)"
    using Reconcile_unhandled_outcome [OF example_env_aggregates t c, unfolded h, OF d]
    by (simp add: p example_reconciler_def)
  show ?thesis
    using th by (simp add: example_env_aggregates t c h' p d)
qed

end
